theory Spec2Isabelle
  imports Complex_Main "HOL-Library.AList"
begin

section \<open>Values of the wire form\<close>

text \<open>
  The codec of \<^verbatim>\<open>autobahn/wamp/message.py\<close> works on unserialized wire arrays: Python
  lists of heterogeneous values. A value is modelled by its Python 2 type and content.
  \<^verbatim>\<open>int\<close> and \<^verbatim>\<open>long\<close> are one constructor, as are \<^verbatim>\<open>str\<close> and \<^verbatim>\<open>unicode\<close>: the
  source always tests them together (\<^verbatim>\<open>type(v) in [int, long]\<close>,
  \<^verbatim>\<open>type(v) in [str, unicode]\<close>). \<^verbatim>\<open>bool\<close> is a type of its own, because the source
  compares \<^verbatim>\<open>type(v)\<close> and not \<^verbatim>\<open>isinstance\<close>. A \<^verbatim>\<open>dict\<close> is an association list
  of its items, read with \<^const>\<open>map_of\<close>; its keys are values, since a deserializer
  may deliver keys that are not strings.
\<close>

datatype pyval =
    PNone
  | PBool bool
  | PInt int
  | PFloat real
  | PStr string
  | PList "pyval list"
  | PDict "(pyval \<times> pyval) list"

text \<open>The exceptions a call of the module can end with.\<close>

datatype exn =
    ProtocolError
  | AssertionError
  | TypeError
  | NameError
  | IndexError
  | AttributeError

definition bind_e :: "exn + 'a \<Rightarrow> ('a \<Rightarrow> exn + 'b) \<Rightarrow> exn + 'b" where
  "bind_e r f = (case r of Inl e \<Rightarrow> Inl e | Inr v \<Rightarrow> f v)"

text \<open>Type tests \<^verbatim>\<open>type(v) in [int, long]\<close>, \<^verbatim>\<open>type(v) in [str, unicode]\<close>,
  \<^verbatim>\<open>type(v) == bool\<close>, \<^verbatim>\<open>type(v) == list\<close>, \<^verbatim>\<open>type(v) == dict\<close>.\<close>

fun is_int :: "pyval \<Rightarrow> bool" where
  "is_int (PInt n) = True"
| "is_int v = False"

fun is_str :: "pyval \<Rightarrow> bool" where
  "is_str (PStr s) = True"
| "is_str v = False"

fun is_bool :: "pyval \<Rightarrow> bool" where
  "is_bool (PBool b) = True"
| "is_bool v = False"

fun is_list :: "pyval \<Rightarrow> bool" where
  "is_list (PList xs) = True"
| "is_list v = False"

fun is_dict :: "pyval \<Rightarrow> bool" where
  "is_dict (PDict d) = True"
| "is_dict v = False"

text \<open>Python truth value of an object, as tested by \<^verbatim>\<open>if self.kwargs:\<close>.\<close>

fun truthy :: "pyval \<Rightarrow> bool" where
  "truthy PNone = False"
| "truthy (PBool b) = b"
| "truthy (PInt n) = (n \<noteq> 0)"
| "truthy (PFloat r) = (r \<noteq> 0)"
| "truthy (PStr s) = (s \<noteq> [])"
| "truthy (PList xs) = (xs \<noteq> [])"
| "truthy (PDict d) = (d \<noteq> [])"

text \<open>\<^verbatim>\<open>v == k\<close> for an integer constant \<^verbatim>\<open>k\<close>: Python compares numbers across
  \<^verbatim>\<open>int\<close>, \<^verbatim>\<open>bool\<close> and \<^verbatim>\<open>float\<close>.\<close>

fun eq_int :: "pyval \<Rightarrow> int \<Rightarrow> bool" where
  "eq_int (PInt n) k = (n = k)"
| "eq_int (PBool b) k = ((if b then 1 else 0) = k)"
| "eq_int (PFloat r) k = (r = of_int k)"
| "eq_int v k = False"

text \<open>\<^verbatim>\<open>assert(len(wmsg) > 0 and wmsg[0] == MESSAGE_TYPE)\<close>, the first statement of every
  \<^verbatim>\<open>parse\<close>.\<close>

fun type_code_is :: "pyval list \<Rightarrow> int \<Rightarrow> bool" where
  "type_code_is [] k = False"
| "type_code_is (t # rest) k = eq_int t k"

text \<open>\<^verbatim>\<open>d.has_key(k)\<close> followed by \<^verbatim>\<open>d[k]\<close> for a string constant \<^verbatim>\<open>k\<close>, on a value
  that \<^verbatim>\<open>check_or_raise_extra\<close> has returned (a dict): \<open>None\<close> when the key is absent.\<close>

fun lookup :: "pyval \<Rightarrow> string \<Rightarrow> pyval option" where
  "lookup (PDict d) k = map_of d (PStr k)"
| "lookup v k = None"

section \<open>Primitive validators\<close>

text \<open>
  \<^verbatim>\<open>
  def check_or_raise_uri(value, message):
     if type(value) not in [str, unicode]:
        raise ProtocolError("{}: invalid type {} for URI".format(message, type(value)))
     if len(value) == 0:
        raise ProtocolError("{}: invalid value '{}' for URI".format(message, value))
     return value

  def check_or_raise_id(value, message):
     if type(value) not in [int, long]:
        raise ProtocolError("{}: invalid type {} for ID".format(message, type(value)))
     if value < 0 or value > 9007199254740992: # 2**53
        raise ProtocolError("{}: invalid value {} for ID".format(message, value))
     return value

  def check_or_raise_extra(value, message):
     if type(value) != dict:
        raise ProtocolError("{}: invalid type {}".format(message, type(value)))
     for k in value.keys():
        if type(k) not in (str, unicode):
           raise ProtocolError("{}: invalid type {} for key '{}'".format(type(k), k))
     return value
  \<close>
  The cause text of a \<^verbatim>\<open>ProtocolError\<close> is not modelled, and so the \<^verbatim>\<open>message\<close>
  parameter is dropped. Where the evaluation of the \<^verbatim>\<open>raise\<close> statement's argument fails
  itself, the model has the exception Python raises there: in \<^verbatim>\<open>check_or_raise_extra\<close>
  the format string for a key of the wrong type has three replacement fields and two
  arguments, so \<^verbatim>\<open>str.format\<close> raises \<^verbatim>\<open>IndexError\<close> before a \<^verbatim>\<open>ProtocolError\<close> exists.
\<close>

fun check_or_raise_uri :: "pyval \<Rightarrow> exn + pyval" where
  "check_or_raise_uri (PStr s) = (if length s = 0 then Inl ProtocolError else Inr (PStr s))"
| "check_or_raise_uri v = Inl ProtocolError"

fun check_or_raise_id :: "pyval \<Rightarrow> exn + pyval" where
  "check_or_raise_id (PInt n) =
     (if n < 0 \<or> n > 9007199254740992 then Inl ProtocolError else Inr (PInt n))"
| "check_or_raise_id v = Inl ProtocolError"

fun check_or_raise_extra :: "pyval \<Rightarrow> exn + pyval" where
  "check_or_raise_extra (PDict d) =
     (if \<not> list_all is_str (map fst d) then Inl IndexError else Inr (PDict d))"
| "check_or_raise_extra v = Inl ProtocolError"

section \<open>Messages\<close>

text \<open>
  A role object held by a \<^verbatim>\<open>Hello\<close>: its class attribute \<^verbatim>\<open>ROLE\<close> and its instance
  dictionary \<^verbatim>\<open>__dict__\<close> (attribute name and value, in iteration order). The classes
  themselves live in \<^verbatim>\<open>autobahn.wamp.role\<close>.
\<close>

record role_features =
  ROLE :: string
  attrs :: "(string \<times> pyval) list"

text \<open>
  One constructor per message class; the arguments are the instance attributes in the
  order in which \<^verbatim>\<open>__init__\<close> assigns them. An attribute holds whatever value the caller
  passed: the constructors do not validate.
\<close>

datatype message =
    Error pyval pyval pyval pyval pyval pyval
      \<comment> \<open>session, request_type, request, error, args, kwargs\<close>
  | Subscribe pyval pyval pyval pyval
      \<comment> \<open>session, request, topic, match\<close>
  | Subscribed pyval pyval pyval
      \<comment> \<open>session, request, subscription\<close>
  | Unsubscribe pyval pyval pyval
      \<comment> \<open>session, request, subscription\<close>
  | Unsubscribed pyval pyval
      \<comment> \<open>session, request\<close>
  | Publish pyval pyval pyval pyval pyval pyval pyval pyval pyval pyval
      \<comment> \<open>session, request, topic, args, kwargs, acknowledge, excludeMe, exclude,
          eligible, discloseMe\<close>
  | Published pyval pyval pyval
      \<comment> \<open>session, request, publication\<close>
  | Event pyval pyval pyval pyval pyval pyval
      \<comment> \<open>session, subscription, publication, args, kwargs, publisher\<close>
  | Register pyval pyval pyval pyval
      \<comment> \<open>session, request, procedure, pkeys\<close>
  | Registered pyval pyval pyval
      \<comment> \<open>session, request, registration\<close>
  | Unregister pyval pyval pyval
      \<comment> \<open>session, request, registration\<close>
  | Unregistered pyval pyval
      \<comment> \<open>session, request\<close>
  | Call pyval pyval pyval pyval pyval pyval pyval pyval
      \<comment> \<open>session, request, procedure, args, kwargs, timeout, receive_progress,
          discloseMe\<close>
  | Cancel pyval pyval pyval
      \<comment> \<open>session, request, mode\<close>
  | Result pyval pyval pyval pyval pyval
      \<comment> \<open>session, request, args, kwargs, progress\<close>
  | Invocation pyval pyval pyval pyval pyval pyval pyval pyval
      \<comment> \<open>session, request, registration, args, kwargs, timeout, receive_progress,
          caller\<close>
  | Interrupt pyval pyval pyval
      \<comment> \<open>session, request, mode\<close>
  | Yield pyval pyval pyval pyval pyval
      \<comment> \<open>session, request, args, kwargs, progress\<close>
  | Hello pyval pyval "role_features list"
      \<comment> \<open>session, realm, roles\<close>
  | Goodbye pyval pyval pyval
      \<comment> \<open>session, reason, message\<close>
  | Heartbeat pyval pyval pyval pyval
      \<comment> \<open>session, incoming, outgoing, discard\<close>

section \<open>Shared steps of the parsers\<close>

text \<open>
  The blocks below recur literally in the \<^verbatim>\<open>parse\<close> methods and are written once.

  A trailing element of the wire array, present only in the longer forms:
  \<^verbatim>\<open>
  args = None
  if len(wmsg) > 5:
     args = wmsg[5]
     if type(args) != list:
        raise ProtocolError(...)
  \<close>
\<close>

definition trailing :: "pyval list \<Rightarrow> nat \<Rightarrow> (pyval \<Rightarrow> bool) \<Rightarrow> exn + pyval" where
  "trailing wmsg i ok =
     (if length wmsg > i
      then (if \<not> ok (wmsg ! i) then Inl ProtocolError else Inr (wmsg ! i))
      else Inr PNone)"

text \<open>
  A recognized key of the options or details mapping:
  \<^verbatim>\<open>
  acknowledge = None
  if options.has_key('acknowledge'):
     option_acknowledge = options['acknowledge']
     if type(option_acknowledge) != bool:
        raise ProtocolError(...)
     acknowledge = option_acknowledge
  \<close>
  \<open>dflt\<close> is the value the attribute has before the test, \<open>ok\<close> the conjunction of the
  checks on the entry (each of them raises \<^verbatim>\<open>ProtocolError\<close>), and \<open>err\<close> the exception
  the failing branch ends with.
\<close>

definition read_option ::
  "pyval \<Rightarrow> string \<Rightarrow> pyval \<Rightarrow> (pyval \<Rightarrow> bool) \<Rightarrow> exn \<Rightarrow> exn + pyval" where
  "read_option options k dflt ok err =
     (case lookup options k of
        None \<Rightarrow> Inr dflt
      | Some v \<Rightarrow> if \<not> ok v then Inl err else Inr v)"

text \<open>The checks on the entries: a list whose elements are all \<^verbatim>\<open>int\<close>/\<^verbatim>\<open>long\<close>
  (\<^verbatim>\<open>exclude\<close>, \<^verbatim>\<open>eligible\<close>, \<^verbatim>\<open>pkeys\<close>); a non-negative integer (\<^verbatim>\<open>timeout\<close>); a string
  out of a fixed list (\<^verbatim>\<open>match\<close>, \<^verbatim>\<open>mode\<close>).\<close>

fun is_int_list :: "pyval \<Rightarrow> bool" where
  "is_int_list (PList xs) = list_all is_int xs"
| "is_int_list v = False"

fun is_timeout :: "pyval \<Rightarrow> bool" where
  "is_timeout (PInt n) = (\<not> n < 0)"
| "is_timeout v = False"

fun is_one_of :: "string list \<Rightarrow> pyval \<Rightarrow> bool" where
  "is_one_of allowed (PStr s) = (s \<in> set allowed)"
| "is_one_of allowed v = False"

text \<open>
  The \<^verbatim>\<open>discloseme\<close> option of \<^verbatim>\<open>Publish.parse\<close> and \<^verbatim>\<open>Call.parse\<close>:
  \<^verbatim>\<open>
  if options.has_key('discloseme'):
     option_discloseMe = options['discloseme']
     if type(option_discloseMe) != bool:
        raise ProtocolError("invalid type {} for 'discloseme' option in PUBLISH".format(type(option_identifyMe)))
     discloseMe = option_discloseMe
  \<close>
  The name \<^verbatim>\<open>option_identifyMe\<close> is bound nowhere, so the failing branch ends with
  \<^verbatim>\<open>NameError\<close>.
\<close>

definition read_discloseme :: "pyval \<Rightarrow> exn + pyval" where
  "read_discloseme options = read_option options ''discloseme'' PNone is_bool NameError"

section \<open>Constructors\<close>

text \<open>
  \<^verbatim>\<open>__init__\<close> of most classes stores its arguments and cannot fail; a call of it is the
  datatype constructor. The classes below are written out.

  \<^verbatim>\<open>Publish.__init__\<close> and \<^verbatim>\<open>Event.__init__\<close> start with
  \<^verbatim>\<open>assert(not (kwargs and not args))\<close>.
\<close>

definition Publish_init ::
  "pyval \<Rightarrow> pyval \<Rightarrow> pyval \<Rightarrow> pyval \<Rightarrow> pyval \<Rightarrow> pyval \<Rightarrow> pyval \<Rightarrow> pyval \<Rightarrow> pyval \<Rightarrow> pyval
     \<Rightarrow> exn + message" where
  "Publish_init session request topic args kwargs acknowledge excludeMe exclude eligible
       discloseMe =
     (if \<not> (\<not> (truthy kwargs \<and> \<not> truthy args)) then Inl AssertionError
      else Inr (Publish session request topic args kwargs acknowledge excludeMe exclude
                  eligible discloseMe))"

definition Event_init ::
  "pyval \<Rightarrow> pyval \<Rightarrow> pyval \<Rightarrow> pyval \<Rightarrow> pyval \<Rightarrow> pyval \<Rightarrow> exn + message" where
  "Event_init session subscription publication args kwargs publisher =
     (if \<not> (\<not> (truthy kwargs \<and> \<not> truthy args)) then Inl AssertionError
      else Inr (Event session subscription publication args kwargs publisher))"

text \<open>
  The other five payload-carrying classes have no such assertion: \<^verbatim>\<open>Error.__init__\<close>,
  \<^verbatim>\<open>Call.__init__\<close>, \<^verbatim>\<open>Result.__init__\<close>, \<^verbatim>\<open>Invocation.__init__\<close> and \<^verbatim>\<open>Yield.__init__\<close>
  only store their arguments.
\<close>

definition Error_init ::
  "pyval \<Rightarrow> pyval \<Rightarrow> pyval \<Rightarrow> pyval \<Rightarrow> pyval \<Rightarrow> pyval \<Rightarrow> exn + message" where
  "Error_init session request_type request error args kwargs =
     Inr (Error session request_type request error args kwargs)"

definition Call_init ::
  "pyval \<Rightarrow> pyval \<Rightarrow> pyval \<Rightarrow> pyval \<Rightarrow> pyval \<Rightarrow> pyval \<Rightarrow> pyval \<Rightarrow> pyval \<Rightarrow> exn + message" where
  "Call_init session request procedure args kwargs timeout receive_progress discloseMe =
     Inr (Call session request procedure args kwargs timeout receive_progress discloseMe)"

definition Result_init :: "pyval \<Rightarrow> pyval \<Rightarrow> pyval \<Rightarrow> pyval \<Rightarrow> pyval \<Rightarrow> exn + message" where
  "Result_init session request args kwargs progress =
     Inr (Result session request args kwargs progress)"

definition Invocation_init ::
  "pyval \<Rightarrow> pyval \<Rightarrow> pyval \<Rightarrow> pyval \<Rightarrow> pyval \<Rightarrow> pyval \<Rightarrow> pyval \<Rightarrow> pyval \<Rightarrow> exn + message" where
  "Invocation_init session request registration args kwargs timeout receive_progress caller =
     Inr (Invocation session request registration args kwargs timeout receive_progress
            caller)"

definition Yield_init :: "pyval \<Rightarrow> pyval \<Rightarrow> pyval \<Rightarrow> pyval \<Rightarrow> pyval \<Rightarrow> exn + message" where
  "Yield_init session request args kwargs progress =
     Inr (Yield session request args kwargs progress)"

text \<open>
  \<^verbatim>\<open>
  class Unsubscribe(Message):
     def __init__(self, request, subscription):
        Message.__init__(self)
        self.session = session
        self.request = request
        self.subscription = subscription
  \<close>
  The signature has two parameters and the body reads a name \<^verbatim>\<open>session\<close> that is bound
  nowhere. The constructor is modelled on the list of positional arguments of the call:
  a call with two arguments ends with \<^verbatim>\<open>NameError\<close> at the first assignment, a call with
  any other number of arguments with \<^verbatim>\<open>TypeError\<close>.
\<close>

fun Unsubscribe_init :: "pyval list \<Rightarrow> exn + message" where
  "Unsubscribe_init [request, subscription] = Inl NameError"
| "Unsubscribe_init arguments = Inl TypeError"

text \<open>
  \<^verbatim>\<open>
  class Unregistered(Message):
     def __init__(self, session, request):
        Message.__init__(self)
        self.session = session
        self.request = request
  \<close>
  \<^verbatim>\<open>Unregistered.parse\<close> calls it with one argument, so this constructor too is modelled on
  the list of positional arguments.
\<close>

fun Unregistered_init :: "pyval list \<Rightarrow> exn + message" where
  "Unregistered_init [session, request] = Inr (Unregistered session request)"
| "Unregistered_init arguments = Inl TypeError"

section \<open>Parsers\<close>

text \<open>
  Every \<^verbatim>\<open>parse\<close> is a static method taking the unserialized wire array. The statements
  are kept in the order of the source, so that the first failing one decides the
  exception. Indexing \<open>wmsg ! i\<close> happens after the length test only, hence in range.
\<close>

definition Error_parse :: "pyval list \<Rightarrow> exn + message" where
  "Error_parse wmsg =
     (if \<not> type_code_is wmsg 4 then Inl AssertionError
      else if length wmsg \<notin> {6, 7, 8} then Inl ProtocolError
      else bind_e (check_or_raise_id (wmsg ! 1)) (\<lambda>session.
           bind_e (if \<not> is_int (wmsg ! 2) then Inl ProtocolError
                   else if wmsg ! 2 \<notin> set (map PInt [32, 34, 16, 64, 66, 48, 68])
                   then Inl ProtocolError
                   else Inr (wmsg ! 2)) (\<lambda>request_type.
           bind_e (check_or_raise_id (wmsg ! 3)) (\<lambda>request.
           bind_e (check_or_raise_extra (wmsg ! 4)) (\<lambda>details.
           bind_e (check_or_raise_uri (wmsg ! 5)) (\<lambda>error.
           bind_e (trailing wmsg 6 is_list) (\<lambda>args.
           bind_e (trailing wmsg 7 is_dict) (\<lambda>kwargs.
           Error_init session request_type request error args kwargs))))))))"

definition Subscribe_parse :: "pyval list \<Rightarrow> exn + message" where
  "Subscribe_parse wmsg =
     (if \<not> type_code_is wmsg 32 then Inl AssertionError
      else if length wmsg \<noteq> 5 then Inl ProtocolError
      else bind_e (check_or_raise_id (wmsg ! 1)) (\<lambda>session.
           bind_e (check_or_raise_id (wmsg ! 2)) (\<lambda>request.
           bind_e (check_or_raise_extra (wmsg ! 3)) (\<lambda>options.
           bind_e (check_or_raise_uri (wmsg ! 4)) (\<lambda>topic.
           bind_e (read_option options ''match'' (PStr ''exact'')
                     (is_one_of [''exact'', ''prefix'', ''wildcard'']) ProtocolError) (\<lambda>match.
           Inr (Subscribe session request topic match)))))))"

definition Subscribed_parse :: "pyval list \<Rightarrow> exn + message" where
  "Subscribed_parse wmsg =
     (if \<not> type_code_is wmsg 33 then Inl AssertionError
      else if length wmsg \<noteq> 4 then Inl ProtocolError
      else bind_e (check_or_raise_id (wmsg ! 1)) (\<lambda>session.
           bind_e (check_or_raise_id (wmsg ! 2)) (\<lambda>request.
           bind_e (check_or_raise_id (wmsg ! 3)) (\<lambda>subscription.
           Inr (Subscribed session request subscription)))))"

definition Unsubscribe_parse :: "pyval list \<Rightarrow> exn + message" where
  "Unsubscribe_parse wmsg =
     (if \<not> type_code_is wmsg 34 then Inl AssertionError
      else if length wmsg \<noteq> 4 then Inl ProtocolError
      else bind_e (check_or_raise_id (wmsg ! 1)) (\<lambda>session.
           bind_e (check_or_raise_id (wmsg ! 2)) (\<lambda>request.
           bind_e (check_or_raise_id (wmsg ! 3)) (\<lambda>subscription.
           Unsubscribe_init [session, request, subscription]))))"

definition Unsubscribed_parse :: "pyval list \<Rightarrow> exn + message" where
  "Unsubscribed_parse wmsg =
     (if \<not> type_code_is wmsg 35 then Inl AssertionError
      else if length wmsg \<noteq> 3 then Inl ProtocolError
      else bind_e (check_or_raise_id (wmsg ! 1)) (\<lambda>session.
           bind_e (check_or_raise_id (wmsg ! 2)) (\<lambda>request.
           Inr (Unsubscribed session request))))"

definition Publish_parse :: "pyval list \<Rightarrow> exn + message" where
  "Publish_parse wmsg =
     (if \<not> type_code_is wmsg 16 then Inl AssertionError
      else if length wmsg \<notin> {5, 6, 7} then Inl ProtocolError
      else bind_e (check_or_raise_id (wmsg ! 1)) (\<lambda>session.
           bind_e (check_or_raise_id (wmsg ! 2)) (\<lambda>request.
           bind_e (check_or_raise_extra (wmsg ! 3)) (\<lambda>options.
           bind_e (check_or_raise_uri (wmsg ! 4)) (\<lambda>topic.
           bind_e (trailing wmsg 5 is_list) (\<lambda>args.
           bind_e (trailing wmsg 6 is_dict) (\<lambda>kwargs.
           bind_e (read_option options ''acknowledge'' PNone is_bool ProtocolError)
             (\<lambda>acknowledge.
           bind_e (read_option options ''excludeme'' PNone is_bool ProtocolError)
             (\<lambda>excludeMe.
           bind_e (read_option options ''exclude'' PNone is_int_list ProtocolError)
             (\<lambda>exclude.
           bind_e (read_option options ''eligible'' PNone is_int_list ProtocolError)
             (\<lambda>eligible.
           bind_e (read_discloseme options) (\<lambda>discloseMe.
           Publish_init session request topic args kwargs acknowledge excludeMe exclude
             eligible discloseMe))))))))))))"

definition Published_parse :: "pyval list \<Rightarrow> exn + message" where
  "Published_parse wmsg =
     (if \<not> type_code_is wmsg 17 then Inl AssertionError
      else if length wmsg \<noteq> 4 then Inl ProtocolError
      else bind_e (check_or_raise_id (wmsg ! 1)) (\<lambda>session.
           bind_e (check_or_raise_id (wmsg ! 2)) (\<lambda>request.
           bind_e (check_or_raise_id (wmsg ! 3)) (\<lambda>publication.
           Inr (Published session request publication)))))"

definition Event_parse :: "pyval list \<Rightarrow> exn + message" where
  "Event_parse wmsg =
     (if \<not> type_code_is wmsg 36 then Inl AssertionError
      else if length wmsg \<notin> {5, 6, 7} then Inl ProtocolError
      else bind_e (check_or_raise_id (wmsg ! 1)) (\<lambda>session.
           bind_e (check_or_raise_id (wmsg ! 2)) (\<lambda>subscription.
           bind_e (check_or_raise_id (wmsg ! 3)) (\<lambda>publication.
           bind_e (check_or_raise_extra (wmsg ! 4)) (\<lambda>details.
           bind_e (trailing wmsg 5 is_list) (\<lambda>args.
           bind_e (trailing wmsg 6 is_dict) (\<lambda>kwargs.
           bind_e (read_option details ''publisher'' PNone is_int ProtocolError) (\<lambda>publisher.
           Event_init session subscription publication args kwargs publisher))))))))"

definition Register_parse :: "pyval list \<Rightarrow> exn + message" where
  "Register_parse wmsg =
     (if \<not> type_code_is wmsg 64 then Inl AssertionError
      else if length wmsg \<noteq> 5 then Inl ProtocolError
      else bind_e (check_or_raise_id (wmsg ! 1)) (\<lambda>session.
           bind_e (check_or_raise_id (wmsg ! 2)) (\<lambda>request.
           bind_e (check_or_raise_extra (wmsg ! 3)) (\<lambda>options.
           bind_e (check_or_raise_uri (wmsg ! 4)) (\<lambda>procedure.
           bind_e (read_option options ''pkeys'' PNone is_int_list ProtocolError) (\<lambda>pkeys.
           Inr (Register session request procedure pkeys)))))))"

definition Registered_parse :: "pyval list \<Rightarrow> exn + message" where
  "Registered_parse wmsg =
     (if \<not> type_code_is wmsg 65 then Inl AssertionError
      else if length wmsg \<noteq> 4 then Inl ProtocolError
      else bind_e (check_or_raise_id (wmsg ! 1)) (\<lambda>session.
           bind_e (check_or_raise_id (wmsg ! 2)) (\<lambda>request.
           bind_e (check_or_raise_id (wmsg ! 3)) (\<lambda>registration.
           Inr (Registered session request registration)))))"

definition Unregister_parse :: "pyval list \<Rightarrow> exn + message" where
  "Unregister_parse wmsg =
     (if \<not> type_code_is wmsg 66 then Inl AssertionError
      else if length wmsg \<noteq> 4 then Inl ProtocolError
      else bind_e (check_or_raise_id (wmsg ! 1)) (\<lambda>session.
           bind_e (check_or_raise_id (wmsg ! 2)) (\<lambda>request.
           bind_e (check_or_raise_id (wmsg ! 3)) (\<lambda>registration.
           Inr (Unregister session request registration)))))"

definition Unregistered_parse :: "pyval list \<Rightarrow> exn + message" where
  "Unregistered_parse wmsg =
     (if \<not> type_code_is wmsg 67 then Inl AssertionError
      else if length wmsg \<noteq> 3 then Inl ProtocolError
      else bind_e (check_or_raise_id (wmsg ! 1)) (\<lambda>session.
           bind_e (check_or_raise_id (wmsg ! 2)) (\<lambda>request.
           Unregistered_init [request])))"

definition Call_parse :: "pyval list \<Rightarrow> exn + message" where
  "Call_parse wmsg =
     (if \<not> type_code_is wmsg 48 then Inl AssertionError
      else if length wmsg \<notin> {5, 6, 7} then Inl ProtocolError
      else bind_e (check_or_raise_id (wmsg ! 1)) (\<lambda>session.
           bind_e (check_or_raise_id (wmsg ! 2)) (\<lambda>request.
           bind_e (check_or_raise_extra (wmsg ! 3)) (\<lambda>options.
           bind_e (check_or_raise_uri (wmsg ! 4)) (\<lambda>procedure.
           bind_e (trailing wmsg 5 is_list) (\<lambda>args.
           bind_e (trailing wmsg 6 is_dict) (\<lambda>kwargs.
           bind_e (read_option options ''timeout'' PNone is_timeout ProtocolError) (\<lambda>timeout.
           bind_e (read_option options ''receive_progress'' PNone is_bool ProtocolError)
             (\<lambda>receive_progress.
           bind_e (read_discloseme options) (\<lambda>discloseMe.
           Call_init session request procedure args kwargs timeout receive_progress
             discloseMe))))))))))"

definition Cancel_parse :: "pyval list \<Rightarrow> exn + message" where
  "Cancel_parse wmsg =
     (if \<not> type_code_is wmsg 49 then Inl AssertionError
      else if length wmsg \<noteq> 4 then Inl ProtocolError
      else bind_e (check_or_raise_id (wmsg ! 1)) (\<lambda>session.
           bind_e (check_or_raise_id (wmsg ! 2)) (\<lambda>request.
           bind_e (check_or_raise_extra (wmsg ! 3)) (\<lambda>options.
           bind_e (read_option options ''mode'' PNone
                     (is_one_of [''skip'', ''abort'', ''kill'']) ProtocolError) (\<lambda>mode.
           Inr (Cancel session request mode))))))"

definition Result_parse :: "pyval list \<Rightarrow> exn + message" where
  "Result_parse wmsg =
     (if \<not> type_code_is wmsg 50 then Inl AssertionError
      else if length wmsg \<notin> {4, 5, 6} then Inl ProtocolError
      else bind_e (check_or_raise_id (wmsg ! 1)) (\<lambda>session.
           bind_e (check_or_raise_id (wmsg ! 2)) (\<lambda>request.
           bind_e (check_or_raise_extra (wmsg ! 3)) (\<lambda>details.
           bind_e (trailing wmsg 4 is_list) (\<lambda>args.
           bind_e (trailing wmsg 5 is_dict) (\<lambda>kwargs.
           bind_e (read_option details ''progress'' PNone is_bool ProtocolError) (\<lambda>progress.
           Result_init session request args kwargs progress)))))))"

definition Invocation_parse :: "pyval list \<Rightarrow> exn + message" where
  "Invocation_parse wmsg =
     (if \<not> type_code_is wmsg 68 then Inl AssertionError
      else if length wmsg \<notin> {5, 6, 7} then Inl ProtocolError
      else bind_e (check_or_raise_id (wmsg ! 1)) (\<lambda>session.
           bind_e (check_or_raise_id (wmsg ! 2)) (\<lambda>request.
           bind_e (check_or_raise_id (wmsg ! 3)) (\<lambda>registration.
           bind_e (check_or_raise_extra (wmsg ! 4)) (\<lambda>details.
           bind_e (trailing wmsg 5 is_list) (\<lambda>args.
           bind_e (trailing wmsg 6 is_dict) (\<lambda>kwargs.
           bind_e (read_option details ''timeout'' PNone is_timeout ProtocolError) (\<lambda>timeout.
           bind_e (read_option details ''receive_progress'' PNone is_bool ProtocolError)
             (\<lambda>receive_progress.
           bind_e (read_option details ''caller'' PNone is_int ProtocolError) (\<lambda>caller.
           Invocation_init session request registration args kwargs timeout
             receive_progress caller))))))))))"

definition Interrupt_parse :: "pyval list \<Rightarrow> exn + message" where
  "Interrupt_parse wmsg =
     (if \<not> type_code_is wmsg 69 then Inl AssertionError
      else if length wmsg \<noteq> 4 then Inl ProtocolError
      else bind_e (check_or_raise_id (wmsg ! 1)) (\<lambda>session.
           bind_e (check_or_raise_id (wmsg ! 2)) (\<lambda>request.
           bind_e (check_or_raise_extra (wmsg ! 3)) (\<lambda>options.
           bind_e (read_option options ''mode'' PNone
                     (is_one_of [''abort'', ''kill'']) ProtocolError) (\<lambda>mode.
           Inr (Interrupt session request mode))))))"

definition Yield_parse :: "pyval list \<Rightarrow> exn + message" where
  "Yield_parse wmsg =
     (if \<not> type_code_is wmsg 70 then Inl AssertionError
      else if length wmsg \<notin> {4, 5, 6} then Inl ProtocolError
      else bind_e (check_or_raise_id (wmsg ! 1)) (\<lambda>session.
           bind_e (check_or_raise_id (wmsg ! 2)) (\<lambda>request.
           bind_e (check_or_raise_extra (wmsg ! 3)) (\<lambda>options.
           bind_e (trailing wmsg 4 is_list) (\<lambda>args.
           bind_e (trailing wmsg 5 is_dict) (\<lambda>kwargs.
           bind_e (read_option options ''progress'' PNone is_bool ProtocolError) (\<lambda>progress.
           Yield_init session request args kwargs progress)))))))"

text \<open>
  \<^verbatim>\<open>Hello.parse\<close> reads the table \<^verbatim>\<open>autobahn.wamp.role.ROLE_NAME_TO_CLASS\<close>, which maps a
  role name to a class of role objects. The module is not part of the sources at hand, so
  the table is a parameter: a partial map from role names to constructors, each taking
  the items of the \<^verbatim>\<open>features\<close> mapping as keyword arguments and returning the role object
  or the exception the call ends with.
  \<^verbatim>\<open>
  for role in details_roles:
     if role not in autobahn.wamp.role.ROLE_NAME_TO_CLASS:
        raise ProtocolError(...)
     if details_roles[role].has_key('features'):
        details_role_features = check_or_raise_extra(details_roles[role]['features'], ...)
        role_features = autobahn.wamp.role.ROLE_NAME_TO_CLASS[role](**details_roles[role]['features'])
     else:
        role_features = autobahn.wamp.role.ROLE_NAME_TO_CLASS[role]()
     roles.append(role_features)
  \<close>
  The loop runs over the items of \<^verbatim>\<open>details_roles\<close>, in the order of the association
  list. A value of a role that is not a dict has no method \<^verbatim>\<open>has_key\<close>: the call ends with
  \<^verbatim>\<open>AttributeError\<close>. \<^verbatim>\<open>Hello.__init__\<close> asserts that every element of \<^verbatim>\<open>roles\<close> is an
  instance of \<^verbatim>\<open>RoleFeatures\<close>; the objects that the registered classes return are taken
  to be such instances, which the type \<^typ>\<open>role_features\<close> expresses.
\<close>

type_synonym role_registry = "string \<Rightarrow> ((pyval \<times> pyval) list \<Rightarrow> exn + role_features) option"

fun items :: "pyval \<Rightarrow> (pyval \<times> pyval) list" where
  "items (PDict d) = d"
| "items v = []"

fun Hello_roles :: "role_registry \<Rightarrow> (pyval \<times> pyval) list \<Rightarrow> exn + role_features list" where
  "Hello_roles reg [] = Inr []"
| "Hello_roles reg ((role, entry) # rest) =
     (case (case role of PStr name \<Rightarrow> reg name | _ \<Rightarrow> None) of
        None \<Rightarrow> Inl ProtocolError
      | Some cls \<Rightarrow>
          bind_e (if \<not> is_dict entry then Inl AttributeError
                  else case lookup entry ''features'' of
                         Some features \<Rightarrow>
                           bind_e (check_or_raise_extra features) (\<lambda>details_role_features.
                           cls (items features))
                       | None \<Rightarrow> cls []) (\<lambda>role_features.
          bind_e (Hello_roles reg rest) (\<lambda>roles.
          Inr (role_features # roles))))"

definition Hello_parse :: "role_registry \<Rightarrow> pyval list \<Rightarrow> exn + message" where
  "Hello_parse reg wmsg =
     (if \<not> type_code_is wmsg 1 then Inl AssertionError
      else if length wmsg \<noteq> 4 then Inl ProtocolError
      else bind_e (check_or_raise_id (wmsg ! 1)) (\<lambda>session.
           bind_e (check_or_raise_uri (wmsg ! 2)) (\<lambda>realm.
           bind_e (check_or_raise_extra (wmsg ! 3)) (\<lambda>details.
           bind_e (case lookup details ''roles'' of
                     None \<Rightarrow> Inl ProtocolError
                   | Some r \<Rightarrow> check_or_raise_extra r) (\<lambda>details_roles.
           bind_e (if length (items details_roles) = 0 then Inl ProtocolError
                   else Hello_roles reg (items details_roles)) (\<lambda>roles.
           Inr (Hello session realm roles)))))))"

text \<open>\<^verbatim>\<open>Goodbye.parse\<close> validates the \<^verbatim>\<open>reason\<close> detail with \<^verbatim>\<open>check_or_raise_uri\<close>.\<close>

definition Goodbye_parse :: "pyval list \<Rightarrow> exn + message" where
  "Goodbye_parse wmsg =
     (if \<not> type_code_is wmsg 2 then Inl AssertionError
      else if length wmsg \<noteq> 3 then Inl ProtocolError
      else bind_e (check_or_raise_id (wmsg ! 1)) (\<lambda>session.
           bind_e (check_or_raise_extra (wmsg ! 2)) (\<lambda>details.
           bind_e (case lookup details ''reason'' of
                     None \<Rightarrow> Inr PNone
                   | Some r \<Rightarrow> check_or_raise_uri r) (\<lambda>reason.
           bind_e (read_option details ''message'' PNone is_str ProtocolError) (\<lambda>message.
           Inr (Goodbye session reason message))))))"

text \<open>\<^verbatim>\<open>Heartbeat.parse\<close> reads and checks the two counters in place, first the type, then
  the sign (\<^verbatim>\<open>incoming < 0\<close>, \<^verbatim>\<open>outgoing <= 0\<close>); the optional fifth element must be a
  string.\<close>

definition Heartbeat_parse :: "pyval list \<Rightarrow> exn + message" where
  "Heartbeat_parse wmsg =
     (if \<not> type_code_is wmsg 3 then Inl AssertionError
      else if length wmsg \<notin> {4, 5} then Inl ProtocolError
      else bind_e (check_or_raise_id (wmsg ! 1)) (\<lambda>session.
           bind_e (case wmsg ! 2 of
                     PInt incoming \<Rightarrow>
                       if incoming < 0 then Inl ProtocolError else Inr (wmsg ! 2)
                   | _ \<Rightarrow> Inl ProtocolError) (\<lambda>incoming.
           bind_e (case wmsg ! 3 of
                     PInt outgoing \<Rightarrow>
                       if outgoing \<le> 0 then Inl ProtocolError else Inr (wmsg ! 3)
                   | _ \<Rightarrow> Inl ProtocolError) (\<lambda>outgoing.
           bind_e (trailing wmsg 4 is_str) (\<lambda>discard.
           Inr (Heartbeat session incoming outgoing discard))))))"

section \<open>Marshalling\<close>

text \<open>
  \<^verbatim>\<open>marshal\<close> builds the options or details mapping from the attributes that are set and
  returns the wire array. The statement
  \<^verbatim>\<open>if self.acknowledge is not None: options['acknowledge'] = self.acknowledge\<close>
  adds one item to a mapping whose keys are all different, so the mapping is the
  concatenation of the items in the order of the statements.
\<close>

definition item_unless_None :: "string \<Rightarrow> pyval \<Rightarrow> (pyval \<times> pyval) list" where
  "item_unless_None k v = (if v \<noteq> PNone then [(PStr k, v)] else [])"

definition item_if_truthy :: "string \<Rightarrow> pyval \<Rightarrow> (pyval \<times> pyval) list" where
  "item_if_truthy k v = (if truthy v then [(PStr k, v)] else [])"

text \<open>
  The tail of the payload-carrying messages:
  \<^verbatim>\<open>
  if self.kwargs:
     return [..., self.args, self.kwargs]
  elif self.args:
     return [..., self.args]
  else:
     return [...]
  \<close>
\<close>

definition payload :: "pyval list \<Rightarrow> pyval \<Rightarrow> pyval \<Rightarrow> pyval list" where
  "payload fixed args kwargs =
     (if truthy kwargs then fixed @ [args, kwargs]
      else if truthy args then fixed @ [args]
      else fixed)"

text \<open>
  \<^verbatim>\<open>Hello.marshal\<close> walks the instance dictionary of every role object:
  \<^verbatim>\<open>
  details = {'roles': {}}
  for role in self.roles:
     details['roles'][role.ROLE] = {}
     for feature in role.__dict__:
        if not feature.startswith('_') and feature != 'ROLE' and getattr(role, feature) is not None:
           if not details['roles'][role.ROLE].has_key('features'):
              details['roles'][role.ROLE] = {'features': {}}
           details['roles'][role.ROLE]['features'][feature] = getattr(role, feature)
  \<close>
\<close>

fun startswith_underscore :: "string \<Rightarrow> bool" where
  "startswith_underscore [] = False"
| "startswith_underscore (c # cs) = (c = CHR ''_'')"

text \<open>The items that the inner loop collects for a role object: the attributes that are
  public, are not named \<^verbatim>\<open>ROLE\<close> and are not \<^verbatim>\<open>None\<close>. The entry of the role is the
  empty mapping when there is none, and a mapping with the one key \<^verbatim>\<open>features\<close>
  otherwise.\<close>

definition feature_items :: "role_features \<Rightarrow> (pyval \<times> pyval) list" where
  "feature_items role =
     map (\<lambda>(feature, v). (PStr feature, v))
       (filter (\<lambda>(feature, v).
           \<not> startswith_underscore feature \<and> feature \<noteq> ''ROLE'' \<and> v \<noteq> PNone)
         (attrs role))"

definition role_entry :: "role_features \<Rightarrow> pyval" where
  "role_entry role =
     (if feature_items role = [] then PDict []
      else PDict [(PStr ''features'', PDict (feature_items role))])"

definition Hello_details :: "role_features list \<Rightarrow> pyval" where
  "Hello_details roles =
     PDict [(PStr ''roles'',
             PDict (foldl (\<lambda>d role. AList.update (PStr (ROLE role)) (role_entry role) d)
                      [] roles))]"

fun marshal :: "message \<Rightarrow> pyval list" where
  "marshal (Error session request_type request error args kwargs) =
     payload [PInt 4, session, request_type, request, PDict [], error] args kwargs"
| "marshal (Subscribe session request topic match) =
     [PInt 32, session, request,
      PDict (if truthy match \<and> match \<noteq> PStr ''exact'' then [(PStr ''match'', match)] else []),
      topic]"
| "marshal (Subscribed session request subscription) =
     [PInt 33, session, request, subscription]"
| "marshal (Unsubscribe session request subscription) =
     [PInt 34, session, request, subscription]"
| "marshal (Unsubscribed session request) =
     [PInt 35, session, request]"
| "marshal (Publish session request topic args kwargs acknowledge excludeMe exclude eligible
       discloseMe) =
     payload [PInt 16, session, request,
              PDict (item_unless_None ''acknowledge'' acknowledge
                     @ item_unless_None ''excludeme'' excludeMe
                     @ item_unless_None ''exclude'' exclude
                     @ item_unless_None ''eligible'' eligible
                     @ item_unless_None ''discloseme'' discloseMe),
              topic] args kwargs"
| "marshal (Published session request publication) =
     [PInt 17, session, request, publication]"
| "marshal (Event session subscription publication args kwargs publisher) =
     payload [PInt 36, session, subscription, publication,
              PDict (item_unless_None ''publisher'' publisher)] args kwargs"
| "marshal (Register session request procedure pkeys) =
     [PInt 64, session, request, PDict (item_unless_None ''pkeys'' pkeys), procedure]"
| "marshal (Registered session request registration) =
     [PInt 65, session, request, registration]"
| "marshal (Unregister session request registration) =
     [PInt 66, session, request, registration]"
| "marshal (Unregistered session request) =
     [PInt 67, session, request]"
| "marshal (Call session request procedure args kwargs timeout receive_progress discloseMe) =
     payload [PInt 48, session, request,
              PDict (item_unless_None ''timeout'' timeout
                     @ item_unless_None ''receive_progress'' receive_progress
                     @ item_unless_None ''discloseme'' discloseMe),
              procedure] args kwargs"
| "marshal (Cancel session request mode) =
     [PInt 49, session, request, PDict (item_unless_None ''mode'' mode)]"
| "marshal (Result session request args kwargs progress) =
     payload [PInt 50, session, request, PDict (item_unless_None ''progress'' progress)]
       args kwargs"
| "marshal (Invocation session request registration args kwargs timeout receive_progress
       caller) =
     payload [PInt 68, session, request, registration,
              PDict (item_unless_None ''timeout'' timeout
                     @ item_unless_None ''receive_progress'' receive_progress
                     @ item_unless_None ''caller'' caller)] args kwargs"
| "marshal (Interrupt session request mode) =
     [PInt 69, session, request, PDict (item_unless_None ''mode'' mode)]"
| "marshal (Yield session request args kwargs progress) =
     payload [PInt 70, session, request, PDict (item_unless_None ''progress'' progress)]
       args kwargs"
| "marshal (Hello session realm roles) =
     [PInt 1, session, realm, Hello_details roles]"
| "marshal (Goodbye session reason message) =
     [PInt 2, session,
      PDict (item_if_truthy ''reason'' reason @ item_if_truthy ''message'' message)]"
| "marshal (Heartbeat session incoming outgoing discard) =
     (if truthy discard then [PInt 3, session, incoming, outgoing, discard]
      else [PInt 3, session, incoming, outgoing])"

section \<open>Classes and dispatch\<close>

text \<open>
  The message classes, their \<^verbatim>\<open>MESSAGE_TYPE\<close> codes and the static method \<^verbatim>\<open>parse\<close> of each
  class; \<open>class_of m\<close> is the class of the instance \<open>m\<close>.
\<close>

datatype msg_class =
    Error_class | Subscribe_class | Subscribed_class | Unsubscribe_class
  | Unsubscribed_class | Publish_class | Published_class | Event_class | Register_class
  | Registered_class | Unregister_class | Unregistered_class | Call_class | Cancel_class
  | Result_class | Invocation_class | Interrupt_class | Yield_class | Hello_class
  | Goodbye_class | Heartbeat_class

fun MESSAGE_TYPE :: "msg_class \<Rightarrow> int" where
  "MESSAGE_TYPE Error_class = 4"
| "MESSAGE_TYPE Subscribe_class = 32"
| "MESSAGE_TYPE Subscribed_class = 33"
| "MESSAGE_TYPE Unsubscribe_class = 34"
| "MESSAGE_TYPE Unsubscribed_class = 35"
| "MESSAGE_TYPE Publish_class = 16"
| "MESSAGE_TYPE Published_class = 17"
| "MESSAGE_TYPE Event_class = 36"
| "MESSAGE_TYPE Register_class = 64"
| "MESSAGE_TYPE Registered_class = 65"
| "MESSAGE_TYPE Unregister_class = 66"
| "MESSAGE_TYPE Unregistered_class = 67"
| "MESSAGE_TYPE Call_class = 48"
| "MESSAGE_TYPE Cancel_class = 49"
| "MESSAGE_TYPE Result_class = 50"
| "MESSAGE_TYPE Invocation_class = 68"
| "MESSAGE_TYPE Interrupt_class = 69"
| "MESSAGE_TYPE Yield_class = 70"
| "MESSAGE_TYPE Hello_class = 1"
| "MESSAGE_TYPE Goodbye_class = 2"
| "MESSAGE_TYPE Heartbeat_class = 3"

fun class_of :: "message \<Rightarrow> msg_class" where
  "class_of (Error session request_type request error args kwargs) = Error_class"
| "class_of (Subscribe session request topic match) = Subscribe_class"
| "class_of (Subscribed session request subscription) = Subscribed_class"
| "class_of (Unsubscribe session request subscription) = Unsubscribe_class"
| "class_of (Unsubscribed session request) = Unsubscribed_class"
| "class_of (Publish session request topic args kwargs acknowledge excludeMe exclude eligible
       discloseMe) = Publish_class"
| "class_of (Published session request publication) = Published_class"
| "class_of (Event session subscription publication args kwargs publisher) = Event_class"
| "class_of (Register session request procedure pkeys) = Register_class"
| "class_of (Registered session request registration) = Registered_class"
| "class_of (Unregister session request registration) = Unregister_class"
| "class_of (Unregistered session request) = Unregistered_class"
| "class_of (Call session request procedure args kwargs timeout receive_progress discloseMe) =
     Call_class"
| "class_of (Cancel session request mode) = Cancel_class"
| "class_of (Result session request args kwargs progress) = Result_class"
| "class_of (Invocation session request registration args kwargs timeout receive_progress
       caller) = Invocation_class"
| "class_of (Interrupt session request mode) = Interrupt_class"
| "class_of (Yield session request args kwargs progress) = Yield_class"
| "class_of (Hello session realm roles) = Hello_class"
| "class_of (Goodbye session reason message) = Goodbye_class"
| "class_of (Heartbeat session incoming outgoing discard) = Heartbeat_class"

fun parse :: "role_registry \<Rightarrow> msg_class \<Rightarrow> pyval list \<Rightarrow> exn + message" where
  "parse reg Error_class = Error_parse"
| "parse reg Subscribe_class = Subscribe_parse"
| "parse reg Subscribed_class = Subscribed_parse"
| "parse reg Unsubscribe_class = Unsubscribe_parse"
| "parse reg Unsubscribed_class = Unsubscribed_parse"
| "parse reg Publish_class = Publish_parse"
| "parse reg Published_class = Published_parse"
| "parse reg Event_class = Event_parse"
| "parse reg Register_class = Register_parse"
| "parse reg Registered_class = Registered_parse"
| "parse reg Unregister_class = Unregister_parse"
| "parse reg Unregistered_class = Unregistered_parse"
| "parse reg Call_class = Call_parse"
| "parse reg Cancel_class = Cancel_parse"
| "parse reg Result_class = Result_parse"
| "parse reg Invocation_class = Invocation_parse"
| "parse reg Interrupt_class = Interrupt_parse"
| "parse reg Yield_class = Yield_parse"
| "parse reg Hello_class = Hello_parse reg"
| "parse reg Goodbye_class = Goodbye_parse"
| "parse reg Heartbeat_class = Heartbeat_parse"

section \<open>The serialization cache\<close>

text \<open>
  \<^verbatim>\<open>
  class Message(util.EqualityMixin):
     def __init__(self):
        self._serialized = {}

     def uncache(self):
        self._serialized = {}

     def serialize(self, serializer):
        ## only serialize if not cached ..
        if not self._serialized.has_key(serializer):
           self._serialized[serializer] = serializer.serialize(self.marshal())
        return self._serialized[serializer]
  \<close>
  An instance is its message attributes together with the dictionary \<^verbatim>\<open>_serialized\<close>. A
  serializer is an object of a collaborator class: it is a dictionary key by its identity
  and has a method \<^verbatim>\<open>serialize\<close>, which returns bytes or raises. To observe which methods a
  call of \<^verbatim>\<open>Message.serialize\<close> invokes, the model returns the list of those invocations
  next to the result and the instance after the call.
\<close>

record serializer =
  ident :: nat
  serialize_method :: "pyval list \<Rightarrow> exn + string"

record message_instance =
  attributes :: message
  serialized :: "(nat \<times> string) list"

datatype invocation = Marshal_invoked | Serialize_invoked nat "pyval list"

definition uncache :: "message_instance \<Rightarrow> message_instance" where
  "uncache self = self\<lparr>serialized := []\<rparr>"

definition serialize ::
  "message_instance \<Rightarrow> serializer
     \<Rightarrow> (exn + string) \<times> message_instance \<times> invocation list" where
  "serialize self ser =
     (case map_of (serialized self) (ident ser) of
        Some bytes \<Rightarrow> (Inr bytes, self, [])
      | None \<Rightarrow>
          (let wire = marshal (attributes self);
               trace = [Marshal_invoked, Serialize_invoked (ident ser) wire]
           in case serialize_method ser wire of
                Inl e \<Rightarrow> (Inl e, self, trace)
              | Inr bytes \<Rightarrow>
                  (Inr bytes,
                   self\<lparr>serialized := AList.update (ident ser) bytes (serialized self)\<rparr>,
                   trace)))"

section \<open>Notions used in the statements\<close>

text \<open>
  The attribute values that the checks of the parsers let pass: an identifier, a URI, an
  optional attribute that is \<^verbatim>\<open>None\<close> or passes the check of its option.
\<close>

definition is_id :: "pyval \<Rightarrow> bool" where
  "is_id v = (check_or_raise_id v = Inr v)"

definition is_uri :: "pyval \<Rightarrow> bool" where
  "is_uri v = (check_or_raise_uri v = Inr v)"





text \<open>The index of the options or details mapping in the wire array of a class, and the
  keys of that mapping which the parser of the class reads.\<close>

fun options_index :: "msg_class \<Rightarrow> nat option" where
  "options_index Error_class = Some 4"
| "options_index Subscribe_class = Some 3"
| "options_index Publish_class = Some 3"
| "options_index Event_class = Some 4"
| "options_index Register_class = Some 3"
| "options_index Call_class = Some 3"
| "options_index Cancel_class = Some 3"
| "options_index Result_class = Some 3"
| "options_index Invocation_class = Some 4"
| "options_index Interrupt_class = Some 3"
| "options_index Yield_class = Some 3"
| "options_index Hello_class = Some 3"
| "options_index Goodbye_class = Some 2"
| "options_index c = None"

fun recognized :: "msg_class \<Rightarrow> string list" where
  "recognized Subscribe_class = [''match'']"
| "recognized Publish_class =
     [''acknowledge'', ''excludeme'', ''exclude'', ''eligible'', ''discloseme'']"
| "recognized Event_class = [''publisher'']"
| "recognized Register_class = [''pkeys'']"
| "recognized Call_class = [''timeout'', ''receive_progress'', ''discloseme'']"
| "recognized Cancel_class = [''mode'']"
| "recognized Result_class = [''progress'']"
| "recognized Invocation_class = [''timeout'', ''receive_progress'', ''caller'']"
| "recognized Interrupt_class = [''mode'']"
| "recognized Yield_class = [''progress'']"
| "recognized Hello_class = [''roles'']"
| "recognized Goodbye_class = [''reason'', ''message'']"
| "recognized c = []"

text \<open>The check that the parser of a class applies to the value of a recognized key: the
  conjunction of the type test and the value test of the source.\<close>

fun key_ok :: "msg_class \<Rightarrow> string \<Rightarrow> pyval \<Rightarrow> bool" where
  "key_ok Subscribe_class k v = is_one_of [''exact'', ''prefix'', ''wildcard''] v"
| "key_ok Publish_class k v =
     (if k = ''exclude'' \<or> k = ''eligible'' then is_int_list v else is_bool v)"
| "key_ok Event_class k v = is_int v"
| "key_ok Register_class k v = is_int_list v"
| "key_ok Call_class k v = (if k = ''timeout'' then is_timeout v else is_bool v)"
| "key_ok Cancel_class k v = is_one_of [''skip'', ''abort'', ''kill''] v"
| "key_ok Result_class k v = is_bool v"
| "key_ok Invocation_class k v =
     (if k = ''timeout'' then is_timeout v
      else if k = ''receive_progress'' then is_bool v
      else is_int v)"
| "key_ok Interrupt_class k v = is_one_of [''abort'', ''kill''] v"
| "key_ok Yield_class k v = is_bool v"
| "key_ok Hello_class k v = (is_dict v \<and> truthy v)"
| "key_ok Goodbye_class k v = (if k = ''reason'' then is_uri v else is_str v)"
| "key_ok c k v = True"

text \<open>The attributes \<^verbatim>\<open>args\<close> and \<^verbatim>\<open>kwargs\<close> of an instance of a payload-carrying class,
  and the instance with these two attributes set to given values.\<close>

fun payload_of :: "message \<Rightarrow> (pyval \<times> pyval) option" where
  "payload_of (Error session request_type request error args kwargs) = Some (args, kwargs)"
| "payload_of (Publish session request topic args kwargs acknowledge excludeMe exclude eligible
       discloseMe) = Some (args, kwargs)"
| "payload_of (Event session subscription publication args kwargs publisher) =
     Some (args, kwargs)"
| "payload_of (Call session request procedure args kwargs timeout receive_progress
       discloseMe) = Some (args, kwargs)"
| "payload_of (Result session request args kwargs progress) = Some (args, kwargs)"
| "payload_of (Invocation session request registration args kwargs timeout receive_progress
       caller) = Some (args, kwargs)"
| "payload_of (Yield session request args kwargs progress) = Some (args, kwargs)"
| "payload_of m = None"

fun with_payload :: "message \<Rightarrow> pyval \<Rightarrow> pyval \<Rightarrow> message" where
  "with_payload (Error session request_type request error args kwargs) a k =
     Error session request_type request error a k"
| "with_payload (Publish session request topic args kwargs acknowledge excludeMe exclude
       eligible discloseMe) a k =
     Publish session request topic a k acknowledge excludeMe exclude eligible discloseMe"
| "with_payload (Event session subscription publication args kwargs publisher) a k =
     Event session subscription publication a k publisher"
| "with_payload (Call session request procedure args kwargs timeout receive_progress
       discloseMe) a k =
     Call session request procedure a k timeout receive_progress discloseMe"
| "with_payload (Result session request args kwargs progress) a k =
     Result session request a k progress"
| "with_payload (Invocation session request registration args kwargs timeout
       receive_progress caller) a k =
     Invocation session request registration a k timeout receive_progress caller"
| "with_payload (Yield session request args kwargs progress) a k =
     Yield session request a k progress"
| "with_payload m a k = m"

text \<open>The wire-array lengths that the parser of a class lets pass.\<close>

fun allowed_lengths :: "msg_class \<Rightarrow> nat list" where
  "allowed_lengths Error_class = [6, 7, 8]"
| "allowed_lengths Subscribe_class = [5]"
| "allowed_lengths Subscribed_class = [4]"
| "allowed_lengths Unsubscribe_class = [4]"
| "allowed_lengths Unsubscribed_class = [3]"
| "allowed_lengths Publish_class = [5, 6, 7]"
| "allowed_lengths Published_class = [4]"
| "allowed_lengths Event_class = [5, 6, 7]"
| "allowed_lengths Register_class = [5]"
| "allowed_lengths Registered_class = [4]"
| "allowed_lengths Unregister_class = [4]"
| "allowed_lengths Unregistered_class = [3]"
| "allowed_lengths Call_class = [5, 6, 7]"
| "allowed_lengths Cancel_class = [4]"
| "allowed_lengths Result_class = [4, 5, 6]"
| "allowed_lengths Invocation_class = [5, 6, 7]"
| "allowed_lengths Interrupt_class = [4]"
| "allowed_lengths Yield_class = [4, 5, 6]"
| "allowed_lengths Hello_class = [4]"
| "allowed_lengths Goodbye_class = [3]"
| "allowed_lengths Heartbeat_class = [4, 5]"

text \<open>
  Python's \<^verbatim>\<open>==\<close> on two wire arrays holds when they have the same length and equal
  elements. \<open>same_element\<close> is sufficient for the equality of two elements: the same
  value, an integer and a number of the same value, or two dicts that map the same keys
  to the same values, whatever the order of their items.
\<close>

fun same_element :: "pyval \<Rightarrow> pyval \<Rightarrow> bool" where
  "same_element (PDict d1) (PDict d2) =
     list_all (\<lambda>k. map_of d1 k = map_of d2 k) (map fst d1 @ map fst d2)"
| "same_element (PInt n) w = eq_int w n"
| "same_element v (PInt n) = eq_int v n"
| "same_element v w = (v = w)"








section \<open>Basic facts\<close>

lemma bind_e_simps [simp]:
  "bind_e (Inl e) f = Inl e"
  "bind_e (Inr v) f = f v"
  by (simp_all add: bind_e_def)

lemma check_or_raise_id_cases:
  "check_or_raise_id v = Inr v \<or> check_or_raise_id v = Inl ProtocolError"
  by (cases v) auto

lemma is_id_check [simp]: "is_id v \<Longrightarrow> check_or_raise_id v = Inr v"
  by (simp add: is_id_def)

lemma is_uri_check [simp]: "is_uri v \<Longrightarrow> check_or_raise_uri v = Inr v"
  by (simp add: is_uri_def)


lemma map_of_items [simp]:
  "(m ++ map_of (item_unless_None k v)) (PStr k') =
     (if k' = k \<and> v \<noteq> PNone then Some v else m (PStr k'))"
  "(m ++ map_of (item_if_truthy k v)) (PStr k') =
     (if k' = k \<and> truthy v then Some v else m (PStr k'))"
  "map_of (item_unless_None k v) (PStr k') = (if k' = k \<and> v \<noteq> PNone then Some v else None)"
  "map_of (item_if_truthy k v) (PStr k') = (if k' = k \<and> truthy v then Some v else None)"
  by (simp_all add: item_unless_None_def item_if_truthy_def map_add_def)

lemma keys_items [simp]:
  "list_all is_str (map fst (item_unless_None k v))"
  "list_all is_str (map fst (item_if_truthy k v))"
  by (simp_all add: item_unless_None_def item_if_truthy_def)


section \<open>Round trip\<close>




















lemma keys_feature_items [simp]: "list_all is_str (map fst (feature_items r))"
  by (simp add: feature_items_def list_all_iff split_beta)





section \<open>Options and details\<close>

lemma bind_e_Inr_iff: "bind_e r f = Inr y \<longleftrightarrow> (\<exists>v. r = Inr v \<and> f v = Inr y)"
  by (cases r) simp_all

lemma type_code_is_update [simp]: "0 < i \<Longrightarrow> type_code_is (wmsg[i := v]) k = type_code_is wmsg k"
  by (cases wmsg; cases i) simp_all

lemma trailing_update [simp]: "i \<noteq> j \<Longrightarrow> trailing (wmsg[i := v]) j ok = trailing wmsg j ok"
  by (simp add: trailing_def)

lemma parse_class_of: "parse reg c wmsg = Inr m \<Longrightarrow> class_of m = c"
  by (cases c)
     (auto simp: Error_parse_def Subscribe_parse_def Subscribed_parse_def Unsubscribe_parse_def
        Unsubscribed_parse_def Publish_parse_def Published_parse_def Event_parse_def
        Register_parse_def Registered_parse_def Unregister_parse_def Unregistered_parse_def
        Call_parse_def Cancel_parse_def Result_parse_def Invocation_parse_def
        Interrupt_parse_def Yield_parse_def Hello_parse_def Goodbye_parse_def
        Heartbeat_parse_def Error_init_def Publish_init_def Event_init_def Call_init_def
        Result_init_def Invocation_init_def Yield_init_def bind_e_Inr_iff
      split: if_splits)

lemma keys_item [simp]:
  "fst ` set (item_unless_None k v) \<subseteq> {PStr k}"
  "fst ` set (item_if_truthy k v) \<subseteq> {PStr k}"
  by (auto simp: item_unless_None_def item_if_truthy_def)

lemma payload_nth [simp]: "i < length fixed \<Longrightarrow> payload fixed a k ! i = fixed ! i"
  by (simp add: payload_def nth_append)

lemma marshal_options_keys:
  "options_index (class_of m) = Some i \<Longrightarrow>
   \<exists>d. marshal m ! i = PDict d \<and> fst ` set d \<subseteq> PStr ` set (recognized (class_of m))"
  by (cases m) (auto simp: Hello_details_def item_unless_None_def item_if_truthy_def)

lemma read_option_cong:
  "lookup d1 k = lookup d2 k \<Longrightarrow> read_option d1 k dflt ok err = read_option d2 k dflt ok err"
  by (simp add: read_option_def)

lemma read_option_Inr_ok:
  "read_option d k dflt ok err = Inr v' \<Longrightarrow> lookup d k = Some v \<Longrightarrow> ok v"
  by (auto simp: read_option_def split: if_splits)

lemma extra_str [simp]: "list_all is_str (map fst d) \<Longrightarrow> check_or_raise_extra (PDict d) = Inr (PDict d)"
  by simp

lemmas parse_defs = Error_parse_def Subscribe_parse_def Subscribed_parse_def Unsubscribe_parse_def
        Unsubscribed_parse_def Publish_parse_def Published_parse_def Event_parse_def
        Register_parse_def Registered_parse_def Unregister_parse_def Unregistered_parse_def
        Call_parse_def Cancel_parse_def Result_parse_def Invocation_parse_def
        Interrupt_parse_def Yield_parse_def Hello_parse_def Goodbye_parse_def
        Heartbeat_parse_def

lemma parse_options_cong:
  assumes "options_index c = Some i"
    and "list_all is_str (map fst d1)" "list_all is_str (map fst d2)"
    and "\<forall>k \<in> set (recognized c). map_of d1 (PStr k) = map_of d2 (PStr k)"
  shows "parse reg c (wmsg[i := PDict d1]) = parse reg c (wmsg[i := PDict d2])"
  using assms
  by (cases c; cases "i < length wmsg")
     (simp_all add: parse_defs read_option_def read_discloseme_def del: check_or_raise_extra.simps)

lemma bind_e_neq_InrI: "(\<And>v. r = Inr v \<Longrightarrow> f v \<noteq> Inr m) \<Longrightarrow> bind_e r f \<noteq> Inr m"
  by (cases r) simp_all

lemma read_option_fails:
  "lookup d k = Some v \<Longrightarrow> \<not> ok v \<Longrightarrow> read_option d k dflt ok err = Inl err"
  by (simp add: read_option_def)

lemma check_or_raise_uri_Inr: "check_or_raise_uri v = Inr w \<Longrightarrow> is_uri v"
  by (cases v) (auto simp: is_uri_def split: if_splits)

lemma check_or_raise_extra_Inr: "check_or_raise_extra v = Inr w \<Longrightarrow> w = v \<and> is_dict v"
  by (cases v) (auto split: if_splits)

lemma key_Subscribe:
  assumes "k \<in> set (recognized Subscribe_class)"
    and "map_of d (PStr k) = Some v" "\<not> key_ok Subscribe_class k v"
  shows "Subscribe_parse (wmsg[3 := PDict d]) \<noteq> Inr m"
  using assms
  by (cases "3 < length wmsg")
     (auto simp: Subscribe_parse_def read_option_fails intro!: bind_e_neq_InrI
        dest!: check_or_raise_extra_Inr)

lemma key_Publish:
  assumes "k \<in> set (recognized Publish_class)"
    and "map_of d (PStr k) = Some v" "\<not> key_ok Publish_class k v"
  shows "Publish_parse (wmsg[3 := PDict d]) \<noteq> Inr m"
  using assms
  by (cases "3 < length wmsg")
     (auto simp: Publish_parse_def read_option_fails read_discloseme_def intro!: bind_e_neq_InrI
        dest!: check_or_raise_extra_Inr)


lemma key_Event:
  assumes "k \<in> set (recognized Event_class)"
    and "map_of d (PStr k) = Some v" "\<not> key_ok Event_class k v"
  shows "Event_parse (wmsg[4 := PDict d]) \<noteq> Inr m"
  using assms
  by (cases "4 < length wmsg")
     (auto simp: Event_parse_def read_option_fails read_discloseme_def intro!: bind_e_neq_InrI
        dest!: check_or_raise_extra_Inr)

lemma key_Register:
  assumes "k \<in> set (recognized Register_class)"
    and "map_of d (PStr k) = Some v" "\<not> key_ok Register_class k v"
  shows "Register_parse (wmsg[3 := PDict d]) \<noteq> Inr m"
  using assms
  by (cases "3 < length wmsg")
     (auto simp: Register_parse_def read_option_fails read_discloseme_def intro!: bind_e_neq_InrI
        dest!: check_or_raise_extra_Inr)

lemma key_Call:
  assumes "k \<in> set (recognized Call_class)"
    and "map_of d (PStr k) = Some v" "\<not> key_ok Call_class k v"
  shows "Call_parse (wmsg[3 := PDict d]) \<noteq> Inr m"
  using assms
  by (cases "3 < length wmsg")
     (auto simp: Call_parse_def read_option_fails read_discloseme_def intro!: bind_e_neq_InrI
        dest!: check_or_raise_extra_Inr)

lemma key_Cancel:
  assumes "k \<in> set (recognized Cancel_class)"
    and "map_of d (PStr k) = Some v" "\<not> key_ok Cancel_class k v"
  shows "Cancel_parse (wmsg[3 := PDict d]) \<noteq> Inr m"
  using assms
  by (cases "3 < length wmsg")
     (auto simp: Cancel_parse_def read_option_fails read_discloseme_def intro!: bind_e_neq_InrI
        dest!: check_or_raise_extra_Inr)

lemma key_Result:
  assumes "k \<in> set (recognized Result_class)"
    and "map_of d (PStr k) = Some v" "\<not> key_ok Result_class k v"
  shows "Result_parse (wmsg[3 := PDict d]) \<noteq> Inr m"
  using assms
  by (cases "3 < length wmsg")
     (auto simp: Result_parse_def read_option_fails read_discloseme_def intro!: bind_e_neq_InrI
        dest!: check_or_raise_extra_Inr)

lemma key_Invocation:
  assumes "k \<in> set (recognized Invocation_class)"
    and "map_of d (PStr k) = Some v" "\<not> key_ok Invocation_class k v"
  shows "Invocation_parse (wmsg[4 := PDict d]) \<noteq> Inr m"
  using assms
  by (cases "4 < length wmsg")
     (auto simp: Invocation_parse_def read_option_fails read_discloseme_def intro!: bind_e_neq_InrI
        dest!: check_or_raise_extra_Inr)

lemma key_Interrupt:
  assumes "k \<in> set (recognized Interrupt_class)"
    and "map_of d (PStr k) = Some v" "\<not> key_ok Interrupt_class k v"
  shows "Interrupt_parse (wmsg[3 := PDict d]) \<noteq> Inr m"
  using assms
  by (cases "3 < length wmsg")
     (auto simp: Interrupt_parse_def read_option_fails read_discloseme_def intro!: bind_e_neq_InrI
        dest!: check_or_raise_extra_Inr)

lemma key_Yield:
  assumes "k \<in> set (recognized Yield_class)"
    and "map_of d (PStr k) = Some v" "\<not> key_ok Yield_class k v"
  shows "Yield_parse (wmsg[3 := PDict d]) \<noteq> Inr m"
  using assms
  by (cases "3 < length wmsg")
     (auto simp: Yield_parse_def read_option_fails read_discloseme_def intro!: bind_e_neq_InrI
        dest!: check_or_raise_extra_Inr)

lemma key_Goodbye:
  assumes "k \<in> set (recognized Goodbye_class)"
    and "map_of d (PStr k) = Some v" "\<not> key_ok Goodbye_class k v"
  shows "Goodbye_parse (wmsg[2 := PDict d]) \<noteq> Inr m"
  using assms
  by (cases "2 < length wmsg")
     (auto simp: Goodbye_parse_def read_option_fails read_discloseme_def intro!: bind_e_neq_InrI
        dest!: check_or_raise_extra_Inr check_or_raise_uri_Inr)

lemma items_falsy: "is_dict v \<Longrightarrow> \<not> truthy v \<Longrightarrow> items v = []"
  by (cases v) simp_all

lemma key_Hello:
  assumes "k \<in> set (recognized Hello_class)"
    and "map_of d (PStr k) = Some v" "\<not> key_ok Hello_class k v"
  shows "Hello_parse reg (wmsg[3 := PDict d]) \<noteq> Inr m"
  using assms
  by (cases "3 < length wmsg")
     (auto simp: Hello_parse_def items_falsy intro!: bind_e_neq_InrI
        dest!: check_or_raise_extra_Inr)

lemma key_Error:
  assumes "k \<in> set (recognized Error_class)"
  shows "Error_parse (wmsg[4 := PDict d]) \<noteq> Inr m"
  using assms by simp

lemma parse_key_checked:
  assumes "options_index c = Some i" "k \<in> set (recognized c)"
    and "map_of d (PStr k) = Some v" "\<not> key_ok c k v"
  shows "parse reg c (wmsg[i := PDict d]) \<noteq> Inr m"
  using assms
  by (cases c)
     (simp_all add: key_Subscribe key_Publish key_Event key_Register key_Call key_Cancel
        key_Result key_Invocation key_Interrupt key_Yield key_Goodbye key_Hello key_Error
        del: key_ok.simps recognized.simps)

section \<open>Wire arrays in normal form\<close>

lemma same_element_refl [simp]: "same_element v v"
  by (cases v) (simp_all add: list_all_iff)


lemma type_code_same: "type_code_is (a # x) k \<Longrightarrow> same_element (PInt k) a"
  by simp





lemma len6: "length x = 6 \<Longrightarrow> \<exists>a b c d e f. x = [a, b, c, d, e, f]"
  by (auto simp: eval_nat_numeral length_Suc_conv)
lemma len7: "length x = 7 \<Longrightarrow> \<exists>a b c d e f g. x = [a, b, c, d, e, f, g]"
  by (auto simp: eval_nat_numeral length_Suc_conv)
lemma len8: "length x = 8 \<Longrightarrow> \<exists>a b c d e f g h. x = [a, b, c, d, e, f, g, h]"
  by (auto simp: eval_nat_numeral length_Suc_conv)































section \<open>The claims\<close>




text \<open>
  Claim C2 says that \<^verbatim>\<open>ProtocolError\<close> is the only failure of a parser. The three calls below
  end otherwise: an options mapping with a key that is not a string ends
  \<^verbatim>\<open>Subscribe.parse\<close> with \<^verbatim>\<open>IndexError\<close>, and a \<^verbatim>\<open>discloseme\<close> option that is not a
  \<^verbatim>\<open>bool\<close> ends \<^verbatim>\<open>Publish.parse\<close> and \<^verbatim>\<open>Call.parse\<close> with \<^verbatim>\<open>NameError\<close>.
\<close>

theorem parse_failures_not_ProtocolError:
  "Subscribe_parse [PInt 32, PInt 1, PInt 2, PDict [(PInt 7, PStr ''x'')], PStr ''t'']
     = Inl IndexError
   \<and> Publish_parse [PInt 16, PInt 1, PInt 2, PDict [(PStr ''discloseme'', PInt 1)], PStr ''t'']
     = Inl NameError
   \<and> Call_parse [PInt 48, PInt 1, PInt 2, PDict [(PStr ''discloseme'', PStr ''yes'')], PStr ''p'']
     = Inl NameError"
  by (simp add: Subscribe_parse_def Publish_parse_def Call_parse_def trailing_def
      read_option_def read_discloseme_def)

text \<open>
  Claim C3 says that an \<^verbatim>\<open>UNSUBSCRIBE\<close> wire array of length 4 with valid identifiers
  parses into an \<^verbatim>\<open>Unsubscribe\<close> instance. \<^verbatim>\<open>Unsubscribe.parse\<close> ends with \<^verbatim>\<open>TypeError\<close> on
  such an array, and returns an instance on no wire array at all.
\<close>

theorem Unsubscribe_parse_never_returns:
  "Unsubscribe_parse [PInt 34, PInt 1, PInt 2, PInt 3] = Inl TypeError
   \<and> (\<forall>wmsg m. Unsubscribe_parse wmsg \<noteq> Inr m)"
  by (auto simp: Unsubscribe_parse_def bind_e_Inr_iff)

text \<open>
  Claim C6 says that constructing a payload-carrying message with keyword arguments and
  no positional arguments fails. \<^verbatim>\<open>Result.__init__\<close> returns the instance, where
  \<^verbatim>\<open>Publish.__init__\<close> ends with \<^verbatim>\<open>AssertionError\<close>; the wire array marshalled from that
  \<^verbatim>\<open>Result\<close> is rejected by \<^verbatim>\<open>Result.parse\<close>.
\<close>

theorem kwargs_without_args_constructed:
  "Result_init (PInt 1) (PInt 2) PNone (PDict [(PStr ''k'', PInt 1)]) PNone
     = Inr (Result (PInt 1) (PInt 2) PNone (PDict [(PStr ''k'', PInt 1)]) PNone)
   \<and> Publish_init (PInt 1) (PInt 2) (PStr ''t'') PNone (PDict [(PStr ''k'', PInt 1)])
        PNone PNone PNone PNone PNone
     = Inl AssertionError
   \<and> Result_parse (marshal (Result (PInt 1) (PInt 2) PNone (PDict [(PStr ''k'', PInt 1)]) PNone))
     = Inl ProtocolError"
  by (simp add: Result_init_def Publish_init_def Result_parse_def payload_def trailing_def
      item_unless_None_def)

text \<open>
  Claim C5, as amended. For every class with an options or details position, the parser
  ignores the keys it does not recognize: two wire arrays that differ only in that
  mapping, both mappings string-keyed and equal on the recognized keys, parse alike; the
  mapping that \<^verbatim>\<open>marshal\<close> emits for a parsed instance has recognized keys only, so an
  unrecognized key is not emitted again; and a recognized key whose value does not pass
  the check of its option makes the parser fail.
\<close>

theorem unrecognized_keys_ignored:
  assumes "options_index c = Some i"
      and "list_all is_str (map fst d1)" and "list_all is_str (map fst d2)"
      and "\<forall>k \<in> set (recognized c). map_of d1 (PStr k) = map_of d2 (PStr k)"
  shows "parse reg c (wmsg[i := PDict d1]) = parse reg c (wmsg[i := PDict d2])
       \<and> (\<forall>m. parse reg c (wmsg[i := PDict d1]) = Inr m \<longrightarrow>
             (\<exists>d. marshal m ! i = PDict d \<and> fst ` set d \<subseteq> PStr ` set (recognized c)))
       \<and> (\<forall>k \<in> set (recognized c). \<forall>v. map_of d1 (PStr k) = Some v \<and> \<not> key_ok c k v \<longrightarrow>
             (\<exists>e. parse reg c (wmsg[i := PDict d1]) = Inl e))"
proof (intro conjI allI impI ballI)
  show "parse reg c (wmsg[i := PDict d1]) = parse reg c (wmsg[i := PDict d2])"
    using assms by (rule parse_options_cong)
next
  fix m
  assume p: "parse reg c (wmsg[i := PDict d1]) = Inr m"
  then have "class_of m = c" by (rule parse_class_of)
  with assms(1) marshal_options_keys [of m i]
  show "\<exists>d. marshal m ! i = PDict d \<and> fst ` set d \<subseteq> PStr ` set (recognized c)"
    by simp
next
  fix k v
  assume k: "k \<in> set (recognized c)" and v: "map_of d1 (PStr k) = Some v \<and> \<not> key_ok c k v"
  then have "\<And>m. parse reg c (wmsg[i := PDict d1]) \<noteq> Inr m"
    using assms(1) parse_key_checked by blast
  then show "\<exists>e. parse reg c (wmsg[i := PDict d1]) = Inl e"
    by (cases "parse reg c (wmsg[i := PDict d1])") auto
qed

text \<open>The theorem at \<^verbatim>\<open>SUBSCRIBE\<close> wire arrays: the key \<^verbatim>\<open>foo\<close> makes no difference, and
  the value \<^verbatim>\<open>fuzzy\<close> of \<^verbatim>\<open>match\<close> is rejected.\<close>

theorem unrecognized_keys_ignored_witness:
  "Subscribe_parse [PInt 32, PInt 917, PInt 5123,
      PDict [(PStr ''foo'', PInt 1), (PStr ''match'', PStr ''prefix'')], PStr ''com.example.topic'']
   = Subscribe_parse [PInt 32, PInt 917, PInt 5123,
      PDict [(PStr ''match'', PStr ''prefix'')], PStr ''com.example.topic'']
   \<and> (\<exists>e. Subscribe_parse [PInt 32, PInt 917, PInt 5123,
      PDict [(PStr ''match'', PStr ''fuzzy'')], PStr ''com.example.topic''] = Inl e)"
proof -
  let ?w = "[PInt 32, PInt 917, PInt 5123, PDict [], PStr ''com.example.topic'']"
  let ?d1 = "[(PStr ''foo'', PInt 1), (PStr ''match'', PStr ''prefix'')]"
  let ?d2 = "[(PStr ''match'', PStr ''prefix'')]"
  let ?d3 = "[(PStr ''match'', PStr ''fuzzy'')]"
  have i: "options_index Subscribe_class = Some 3" by simp
  have s: "list_all is_str (map fst ?d1)" "list_all is_str (map fst ?d2)"
    "list_all is_str (map fst ?d3)" by simp_all
  have a: "\<forall>k \<in> set (recognized Subscribe_class). map_of ?d1 (PStr k) = map_of ?d2 (PStr k)"
    by simp
  have b: "\<forall>k \<in> set (recognized Subscribe_class). map_of ?d3 (PStr k) = map_of ?d3 (PStr k)"
    by simp
  have k: "''match'' \<in> set (recognized Subscribe_class)"
    "map_of ?d3 (PStr ''match'') = Some (PStr ''fuzzy'') \<and> \<not> key_ok Subscribe_class ''match'' (PStr ''fuzzy'')"
    by simp_all
  from unrecognized_keys_ignored [OF i s(1) s(2) a, of "\<lambda>name. None" ?w]
  have 1: "Subscribe_parse (?w[3 := PDict ?d1]) = Subscribe_parse (?w[3 := PDict ?d2])"
    by simp
  from unrecognized_keys_ignored [OF i s(3) s(3) b, of "\<lambda>name. None" ?w] k
  have 2: "\<exists>e. Subscribe_parse (?w[3 := PDict ?d3]) = Inl e"
    by (simp del: key_ok.simps recognized.simps)
  from 1 2 show ?thesis by simp
qed

text \<open>
  Claim C5 as stated fails: the \<^verbatim>\<open>Subscribe\<close> instance parsed from a wire array whose
  options hold the key \<^verbatim>\<open>foo\<close> does not retain the key, and its marshalled form has empty
  options.
\<close>

theorem Subscribe_drops_unrecognized_key:
  "Subscribe_parse [PInt 32, PInt 917, PInt 5123, PDict [(PStr ''foo'', PInt 1)],
      PStr ''com.example.topic'']
     = Inr (Subscribe (PInt 917) (PInt 5123) (PStr ''com.example.topic'') (PStr ''exact''))
   \<and> marshal (Subscribe (PInt 917) (PInt 5123) (PStr ''com.example.topic'') (PStr ''exact''))
     = [PInt 32, PInt 917, PInt 5123, PDict [], PStr ''com.example.topic'']"
  by (simp add: Subscribe_parse_def read_option_def)



text \<open>
  Claim C8. On a wire array that starts with the \<^verbatim>\<open>HEARTBEAT\<close> code, \<^verbatim>\<open>Heartbeat.parse\<close>
  returns an instance only if the incoming counter is an integer that is not negative
  and the outgoing counter is an integer greater than zero, and ends with
  \<^verbatim>\<open>ProtocolError\<close> whenever this is violated. An incoming counter 0 with a positive
  outgoing counter and a valid session is accepted; \<^verbatim>\<open>[3, 1, -1, 5]\<close> ends with
  \<^verbatim>\<open>ProtocolError\<close>.
\<close>

theorem Heartbeat_parse_counters:
  "(type_code_is wmsg 3 \<longrightarrow>
      (\<forall>m. Heartbeat_parse wmsg = Inr m \<longrightarrow>
            (\<exists>i out. wmsg ! 2 = PInt i \<and> 0 \<le> i \<and> wmsg ! 3 = PInt out \<and> 0 < out))
      \<and> (\<not> (\<exists>i out. wmsg ! 2 = PInt i \<and> 0 \<le> i \<and> wmsg ! 3 = PInt out \<and> 0 < out) \<longrightarrow>
            Heartbeat_parse wmsg = Inl ProtocolError))
   \<and> (is_id session \<and> 0 < out \<longrightarrow>
        Heartbeat_parse [PInt 3, session, PInt 0, PInt out]
          = Inr (Heartbeat session (PInt 0) (PInt out) PNone))
   \<and> Heartbeat_parse [PInt 3, PInt 1, PInt (- 1), PInt 5] = Inl ProtocolError"
proof (intro conjI impI)
  assume t: "type_code_is wmsg 3"
  consider "check_or_raise_id (wmsg ! 1) = Inr (wmsg ! 1)"
    | "check_or_raise_id (wmsg ! 1) = Inl ProtocolError"
    using check_or_raise_id_cases by blast
  then have *: "(\<forall>m. Heartbeat_parse wmsg = Inr m \<longrightarrow>
            (\<exists>i out. wmsg ! 2 = PInt i \<and> 0 \<le> i \<and> wmsg ! 3 = PInt out \<and> 0 < out))
      \<and> (\<not> (\<exists>i out. wmsg ! 2 = PInt i \<and> 0 \<le> i \<and> wmsg ! 3 = PInt out \<and> 0 < out) \<longrightarrow>
            Heartbeat_parse wmsg = Inl ProtocolError)"
    using t
    by cases (auto simp: Heartbeat_parse_def trailing_def split: pyval.splits if_splits)
  from * show "\<forall>m. Heartbeat_parse wmsg = Inr m \<longrightarrow>
            (\<exists>i out. wmsg ! 2 = PInt i \<and> 0 \<le> i \<and> wmsg ! 3 = PInt out \<and> 0 < out)" by blast
  from * show "\<not> (\<exists>i out. wmsg ! 2 = PInt i \<and> 0 \<le> i \<and> wmsg ! 3 = PInt out \<and> 0 < out) \<Longrightarrow>
            Heartbeat_parse wmsg = Inl ProtocolError" by blast
next
  assume "is_id session \<and> 0 < out"
  then show "Heartbeat_parse [PInt 3, session, PInt 0, PInt out]
          = Inr (Heartbeat session (PInt 0) (PInt out) PNone)"
    by (simp add: Heartbeat_parse_def trailing_def)
next
  show "Heartbeat_parse [PInt 3, PInt 1, PInt (- 1), PInt 5] = Inl ProtocolError"
    by (simp add: Heartbeat_parse_def)
qed

text \<open>The theorem at an outgoing counter 0, at an outgoing counter that is a string and
  at an incoming counter 0.\<close>

theorem Heartbeat_parse_counters_witness:
  "Heartbeat_parse [PInt 3, PInt 1, PInt 2, PInt 0] = Inl ProtocolError
   \<and> Heartbeat_parse [PInt 3, PInt 1, PInt 2, PStr ''5''] = Inl ProtocolError
   \<and> Heartbeat_parse [PInt 3, PInt 1, PInt 0, PInt 5]
       = Inr (Heartbeat (PInt 1) (PInt 0) (PInt 5) PNone)"
  using Heartbeat_parse_counters [of "[PInt 3, PInt 1, PInt 2, PInt 0]" "PInt 1" 5]
    Heartbeat_parse_counters [of "[PInt 3, PInt 1, PInt 2, PStr ''5'']" "PInt 1" 5]
  by (simp add: is_id_def)

text \<open>
  Claim C9 says that \<^verbatim>\<open>marshal\<close> appends the positional-arguments field only when \<^verbatim>\<open>args\<close>
  is a non-empty list, and encodes an empty container like an absent one. The \<^verbatim>\<open>Result\<close>
  instance parsed from a wire array with an empty list of arguments and one keyword
  argument holds keyword arguments without positional arguments, the state that
  \<^verbatim>\<open>Publish.__init__\<close> and \<^verbatim>\<open>Event.__init__\<close> exclude by assertion and \<^verbatim>\<open>Result.__init__\<close>
  lets pass. It marshals with the empty list in the positional-arguments field; with
  \<^verbatim>\<open>args\<close> absent, \<^verbatim>\<open>None\<close> is emitted in that field.
\<close>

theorem empty_args_emitted_with_kwargs:
  "Result_parse [PInt 50, PInt 1, PInt 2, PDict [], PList [], PDict [(PStr ''k'', PInt 1)]]
     = Inr (Result (PInt 1) (PInt 2) (PList []) (PDict [(PStr ''k'', PInt 1)]) PNone)
   \<and> marshal (Result (PInt 1) (PInt 2) (PList []) (PDict [(PStr ''k'', PInt 1)]) PNone)
     = [PInt 50, PInt 1, PInt 2, PDict [], PList [], PDict [(PStr ''k'', PInt 1)]]
   \<and> marshal (Result (PInt 1) (PInt 2) PNone (PDict [(PStr ''k'', PInt 1)]) PNone)
     = [PInt 50, PInt 1, PInt 2, PDict [], PNone, PDict [(PStr ''k'', PInt 1)]]"
  by (simp add: Result_parse_def Result_init_def trailing_def read_option_def payload_def
      item_unless_None_def)

text \<open>
  Claim C10. \<^verbatim>\<open>Error.parse\<close> returns an instance only if the element at index 4 is a
  mapping whose keys are all strings; the result of \<^verbatim>\<open>Error.parse\<close> is the same for any
  two string-keyed mappings at index 4, so that no attribute of the instance depends on
  the content of the mapping; and \<^verbatim>\<open>Error.marshal\<close> emits the empty mapping at index 4
  for every instance.
\<close>

theorem Error_details_discarded:
  "(Error_parse wmsg = Inr m \<longrightarrow> (\<exists>d. wmsg ! 4 = PDict d \<and> list_all is_str (map fst d)))
   \<and> (list_all is_str (map fst d1) \<and> list_all is_str (map fst d2) \<longrightarrow>
        Error_parse (wmsg[4 := PDict d1]) = Error_parse (wmsg[4 := PDict d2]))
   \<and> marshal (Error session request_type request error args kwargs) ! 4 = PDict []"
proof (intro conjI impI)
  assume "Error_parse wmsg = Inr m"
  then show "\<exists>d. wmsg ! 4 = PDict d \<and> list_all is_str (map fst d)"
    by (cases "wmsg ! 4") (auto simp: Error_parse_def bind_e_Inr_iff split: if_splits)
next
  assume "list_all is_str (map fst d1) \<and> list_all is_str (map fst d2)"
  then show "Error_parse (wmsg[4 := PDict d1]) = Error_parse (wmsg[4 := PDict d2])"
    by (cases "4 < length wmsg") (simp_all add: Error_parse_def)
next
  show "marshal (Error session request_type request error args kwargs) ! 4 = PDict []"
    by simp
qed

text \<open>The theorem at an \<^verbatim>\<open>ERROR\<close> wire array with one detail.\<close>

theorem Error_details_discarded_witness:
  "Error_parse [PInt 4, PInt 1, PInt 32, PInt 10, PDict [(PStr ''x'', PInt 1)],
      PStr ''com.example.error'']
   = Inr (Error (PInt 1) (PInt 32) (PInt 10) (PStr ''com.example.error'') PNone PNone)
   \<and> marshal (Error (PInt 1) (PInt 32) (PInt 10) (PStr ''com.example.error'') PNone PNone)
   = [PInt 4, PInt 1, PInt 32, PInt 10, PDict [], PStr ''com.example.error'']"
proof -
  let ?w = "[PInt 4, PInt 1, PInt 32, PInt 10, PDict [], PStr ''com.example.error'']"
  have e: "Error_parse ?w
    = Inr (Error (PInt 1) (PInt 32) (PInt 10) (PStr ''com.example.error'') PNone PNone)"
    by (simp add: Error_parse_def trailing_def Error_init_def)
  from Error_details_discarded [of ?w _ "[(PStr ''x'', PInt 1)]" "[]"] e
  show ?thesis by (simp add: payload_def)
qed

text \<open>
  Claim C4. \<^verbatim>\<open>check_or_raise_id\<close> accepts exactly the values of type \<^verbatim>\<open>int\<close>/\<^verbatim>\<open>long\<close>
  between 0 and 9007199254740992 (both included) and returns an accepted value unchanged;
  every other value, among them 9007199254740993 and every negative integer, is rejected
  with \<^verbatim>\<open>ProtocolError\<close>; 0 and 9007199254740992 are accepted.
\<close>

theorem check_or_raise_id_spec:
  "check_or_raise_id v =
     (if (\<exists>n. v = PInt n \<and> 0 \<le> n \<and> n \<le> 9007199254740992) then Inr v else Inl ProtocolError)
   \<and> check_or_raise_id (PInt 0) = Inr (PInt 0)
   \<and> check_or_raise_id (PInt 9007199254740992) = Inr (PInt 9007199254740992)
   \<and> check_or_raise_id (PInt 9007199254740993) = Inl ProtocolError
   \<and> (\<forall>n < 0. check_or_raise_id (PInt n) = Inl ProtocolError)"
  by (cases v) auto

text \<open>The theorem at an identifier, a negative integer, a \<^verbatim>\<open>bool\<close> and a \<^verbatim>\<open>float\<close>.\<close>

theorem check_or_raise_id_spec_witness:
  "check_or_raise_id (PInt 917) = Inr (PInt 917)
   \<and> check_or_raise_id (PInt (- 1)) = Inl ProtocolError
   \<and> check_or_raise_id (PBool True) = Inl ProtocolError
   \<and> check_or_raise_id (PFloat 5) = Inl ProtocolError"
  using check_or_raise_id_spec [of "PInt 917"] check_or_raise_id_spec [of "PInt (- 1)"]
    check_or_raise_id_spec [of "PBool True"] check_or_raise_id_spec [of "PFloat 5"]
  by simp

text \<open>
  Length boundary. For every class, a wire array that starts with the code of the class
  and whose length is not one of the allowed lengths ends \<^verbatim>\<open>parse\<close> with \<^verbatim>\<open>ProtocolError\<close>.
\<close>

theorem length_outside_allowed:
  assumes "type_code_is wmsg (MESSAGE_TYPE c)"
      and "length wmsg \<notin> set (allowed_lengths c)"
  shows "parse reg c wmsg = Inl ProtocolError"
  using assms by (cases c) (simp_all add: parse_defs)

text \<open>The theorem at an \<^verbatim>\<open>UNSUBSCRIBED\<close> array that is one element short and at a
  \<^verbatim>\<open>PUBLISH\<close> array that is one element long.\<close>

theorem length_outside_allowed_witness:
  "Unsubscribed_parse [PInt 35, PInt 1] = Inl ProtocolError
   \<and> Publish_parse [PInt 16, PInt 1, PInt 2, PDict [], PStr ''t'', PList [], PDict [], PNone]
       = Inl ProtocolError"
  using length_outside_allowed [of "[PInt 35, PInt 1]" Unsubscribed_class "\<lambda>name. None"]
    length_outside_allowed
      [of "[PInt 16, PInt 1, PInt 2, PDict [], PStr ''t'', PList [], PDict [], PNone]"
          Publish_class "\<lambda>name. None"]
  by simp

text \<open>
  \<^verbatim>\<open>uncache\<close> clears the cache and leaves the message attributes alone, so that the next
  call of \<^verbatim>\<open>serialize\<close> invokes \<^verbatim>\<open>marshal\<close> and the serializer again.
\<close>

theorem uncache_clears:
  "serialized (uncache self) = []
   \<and> attributes (uncache self) = attributes self
   \<and> snd (snd (serialize (uncache self) ser))
       = [Marshal_invoked, Serialize_invoked (ident ser) (marshal (attributes self))]"
  by (simp add: uncache_def serialize_def Let_def split: sum.splits)

text \<open>
  Payload fields under the invariant of the constructors. For every instance of a
  payload-carrying class that does not hold keyword arguments without positional
  arguments (the assertion of \<^verbatim>\<open>Publish.__init__\<close> and \<^verbatim>\<open>Event.__init__\<close>), \<^verbatim>\<open>marshal\<close>
  appends the positional-arguments field exactly when \<^verbatim>\<open>args\<close> is not empty and the
  keyword-arguments field exactly when \<^verbatim>\<open>kwargs\<close> is not empty; an empty container is
  encoded like an absent one.
\<close>

theorem payload_fields_under_invariant:
  assumes "payload_of m = Some (a, k)"
      and "\<not> (truthy k \<and> \<not> truthy a)"
  shows "marshal m =
           marshal (with_payload m PNone PNone)
           @ (if truthy a then [a] else []) @ (if truthy k then [k] else [])"
  using assms by (cases m) (auto simp: payload_def)

text \<open>The theorem at the \<^verbatim>\<open>Publish\<close> instance parsed from a wire array with an explicit
  empty list of arguments, which marshals to the five-element form, and at a \<^verbatim>\<open>Publish\<close>
  with one argument.\<close>

theorem payload_fields_under_invariant_witness:
  "Publish_parse [PInt 16, PInt 1, PInt 2, PDict [], PStr ''t'', PList []]
     = Inr (Publish (PInt 1) (PInt 2) (PStr ''t'') (PList []) PNone PNone PNone PNone PNone PNone)
   \<and> marshal (Publish (PInt 1) (PInt 2) (PStr ''t'') (PList []) PNone PNone PNone PNone PNone PNone)
     = [PInt 16, PInt 1, PInt 2, PDict [], PStr ''t'']
   \<and> marshal (Publish (PInt 1) (PInt 2) (PStr ''t'') (PList [PInt 5]) PNone PNone PNone PNone PNone
        PNone)
     = [PInt 16, PInt 1, PInt 2, PDict [], PStr ''t'', PList [PInt 5]]"
proof -
  let ?m = "Publish (PInt 1) (PInt 2) (PStr ''t'') (PList []) PNone PNone PNone PNone PNone PNone"
  let ?n = "Publish (PInt 1) (PInt 2) (PStr ''t'') (PList [PInt 5]) PNone PNone PNone PNone PNone PNone"
  have a: "payload_of ?m = Some (PList [], PNone)" "\<not> (truthy PNone \<and> \<not> truthy (PList []))"
    by simp_all
  have b: "payload_of ?n = Some (PList [PInt 5], PNone)"
    "\<not> (truthy PNone \<and> \<not> truthy (PList [PInt 5]))"
    by simp_all
  have p: "Publish_parse [PInt 16, PInt 1, PInt 2, PDict [], PStr ''t'', PList []] = Inr ?m"
    by (simp add: Publish_parse_def trailing_def read_option_def read_discloseme_def
        Publish_init_def)
  from payload_fields_under_invariant [OF a] payload_fields_under_invariant [OF b] p
  show ?thesis
    by (simp add: payload_def item_unless_None_def)
qed

end
